theory Spec2Isabelle
  imports Complex_Main
begin

section \<open>Python values and exceptions\<close>

text \<open>
  The arguments of \<^verbatim>\<open>S3Client\<close> and \<^verbatim>\<open>S3Request\<close> are dynamically typed and are
  checked with \<^verbatim>\<open>isinstance\<close>, \<^verbatim>\<open>callable\<close> and truth tests, so they are modelled as
  values of one type. An instance carries its class (the nearest of the classes the source
  tests for), an identity, the value of \<^verbatim>\<open>bool(obj)\<close> and whether it has
  \<^verbatim>\<open>__call__\<close>. \<open>PyFunc\<close> is a function, lambda or bound method: callable and true.
  A finite float is the real number it denotes.
\<close>

datatype pyclass =
    ClientBootstrap | AwsCredentialsProvider | TlsConnectionOptions | HttpRequest | OtherClass

datatype pyval =
    PyNone
  | PyBool bool
  | PyInt int
  | PyFloat real
  | PyStr string
  | PyFunc nat
  | PyObj pyclass nat bool bool

datatype exc =
    AssertionError
  | TypeError
  | InvalidStateError
  | AttributeError
  | AwsCrtError int
  | RuntimeError

text \<open>\<^verbatim>\<open>class AwsS3RequestType(IntEnum)\<close>: the members are the integers 0, 1 and 2.\<close>

datatype AwsS3RequestType = DEFAULT | GET_OBJECT | PUT_OBJECT

fun request_type_value :: "AwsS3RequestType \<Rightarrow> pyval" where
  "request_type_value DEFAULT = PyInt 0"
| "request_type_value GET_OBJECT = PyInt 1"
| "request_type_value PUT_OBJECT = PyInt 2"

fun truthy :: "pyval \<Rightarrow> bool" where
  "truthy PyNone = False"
| "truthy (PyBool b) = b"
| "truthy (PyInt n) = (n \<noteq> 0)"
| "truthy (PyFloat x) = (x \<noteq> 0)"
| "truthy (PyStr s) = (s \<noteq> [])"
| "truthy (PyFunc f) = True"
| "truthy (PyObj c i t k) = t"

fun callable :: "pyval \<Rightarrow> bool" where
  "callable (PyFunc f) = True"
| "callable (PyObj c i t k) = k"
| "callable v = False"

fun isinstance :: "pyval \<Rightarrow> pyclass \<Rightarrow> bool" where
  "isinstance (PyObj c i t k) c' = (c = c')"
| "isinstance v c' = False"

text \<open>\<^verbatim>\<open>bool\<close> is a subclass of \<^verbatim>\<open>int\<close>, so \<^verbatim>\<open>isinstance(True, int)\<close> holds.\<close>

fun isinstance_int :: "pyval \<Rightarrow> bool" where
  "isinstance_int (PyInt n) = True"
| "isinstance_int (PyBool b) = True"
| "isinstance_int v = False"

fun isinstance_float :: "pyval \<Rightarrow> bool" where
  "isinstance_float (PyFloat x) = True"
| "isinstance_float v = False"

fun isinstance_str :: "pyval \<Rightarrow> bool" where
  "isinstance_str (PyStr s) = True"
| "isinstance_str v = False"

section \<open>Futures\<close>

text \<open>
  \<^verbatim>\<open>concurrent.futures.Future\<close> as the source uses it: the constructor,
  \<^verbatim>\<open>set_result\<close> and \<^verbatim>\<open>set_exception\<close>. A future that is already done refuses
  both setters with \<^verbatim>\<open>InvalidStateError\<close> and is left as it was (the documented
  behaviour since Python 3.8). Futures are objects shared by reference, so they live in a
  store and are named by their position in it; \<open>fut_notified\<close> counts how often the
  future has woken its waiters and run its done-callbacks.
\<close>

datatype fstate = PENDING | FINISHED_result pyval | FINISHED_exception exc

record future =
  fut_state :: fstate
  fut_notified :: nat

type_synonym headers = "(string \<times> string) list"
type_synonym bytes = "nat list"

text \<open>An invocation of a user callback: the callback object and its keyword arguments.\<close>

datatype call =
    Call_on_headers pyval int headers
  | Call_on_body pyval bytes

record world =
  futures :: "future list"
  calls :: "call list"

definition Future_new :: "world \<Rightarrow> nat \<times> world" where
  "Future_new w =
     (length (futures w),
      w\<lparr>futures := futures w @ [\<lparr>fut_state = PENDING, fut_notified = 0\<rparr>]\<rparr>)"

definition resolve :: "nat \<Rightarrow> fstate \<Rightarrow> world \<Rightarrow> exc + world" where
  "resolve a s w =
     (if a < length (futures w) \<and> fut_state (futures w ! a) = PENDING
      then Inr (w\<lparr>futures := (futures w)
                  [a := \<lparr>fut_state = s, fut_notified = fut_notified (futures w ! a) + 1\<rparr>]\<rparr>)
      else Inl InvalidStateError)"

definition set_result :: "nat \<Rightarrow> pyval \<Rightarrow> world \<Rightarrow> exc + world" where
  "set_result a v w = resolve a (FINISHED_result v) w"

definition set_exception :: "nat \<Rightarrow> exc \<Rightarrow> world \<Rightarrow> exc + world" where
  "set_exception a e w = resolve a (FINISHED_exception e) w"

section \<open>The native module\<close>

text \<open>
  The extension module \<^verbatim>\<open>_awscrt\<close> and \<^verbatim>\<open>awscrt.auth\<close> are not part of the
  source; what the source evaluates in them is a parameter of the model. Each such
  expression either raises or yields its value; a native object is named by a number.
  \<open>from_code\<close> is the expression \<^verbatim>\<open>_awscrt.exceptions.from_code(error_code)\<close>: the
  lookup of \<^verbatim>\<open>exceptions\<close> on the extension module, the lookup of \<^verbatim>\<open>from_code\<close> on
  that, and the call, which yields the exception made from the code.
\<close>

record client_args =
  arg_bootstrap :: pyval
  arg_credential_provider :: pyval
  arg_tls_connection_options :: pyval
  arg_on_shutdown :: nat
  arg_region :: pyval
  arg_part_size :: pyval
  arg_connection_timeout_ms :: pyval
  arg_throughput_target_gbps :: pyval
  arg_throughput_per_vip_gbps :: pyval
  arg_num_connections_per_vip :: pyval

record native =
  s3_client_new :: "client_args \<Rightarrow> exc + nat"
  s3_client_make_meta_request :: "nat \<Rightarrow> pyval \<Rightarrow> pyval \<Rightarrow> exc + nat"
  from_code :: "int \<Rightarrow> exc + exc"
  new_default_chain :: "pyval \<Rightarrow> exc + pyval"

section \<open>S3Client\<close>

text \<open>
  The keyword arguments of \<^verbatim>\<open>S3Client.__init__\<close>; \<open>default_config\<close> gives the
  optional ones the defaults of the signature.
\<close>

record client_config =
  bootstrap :: pyval
  region :: pyval
  credential_provider :: pyval
  tls_connection_options :: pyval
  part_size :: pyval
  connection_timeout_ms :: pyval
  throughput_target_gbps :: pyval
  throughput_per_vip_gbps :: pyval
  num_connections_per_vip :: pyval

definition default_config :: "pyval \<Rightarrow> pyval \<Rightarrow> client_config" where
  "default_config b r =
     \<lparr>bootstrap = b, region = r, credential_provider = PyNone,
      tls_connection_options = PyNone, part_size = PyInt 0, connection_timeout_ms = PyInt 0,
      throughput_target_gbps = PyInt 0, throughput_per_vip_gbps = PyInt 0,
      num_connections_per_vip = PyInt 0\<rparr>"

record S3Client =
  shutdown_future :: nat
  client_binding :: nat

text \<open>The assertions of \<^verbatim>\<open>S3Client.__init__\<close>, in the order of the source.\<close>

definition S3Client_asserts :: "client_config \<Rightarrow> bool" where
  "S3Client_asserts cfg =
     (isinstance (bootstrap cfg) ClientBootstrap
      \<and> isinstance_str (region cfg)
      \<and> (isinstance (credential_provider cfg) AwsCredentialsProvider
           \<or> credential_provider cfg = PyNone)
      \<and> (isinstance (tls_connection_options cfg) TlsConnectionOptions
           \<or> tls_connection_options cfg = PyNone)
      \<and> (isinstance_int (part_size cfg) \<or> part_size cfg = PyNone)
      \<and> (isinstance_int (connection_timeout_ms cfg) \<or> connection_timeout_ms cfg = PyNone)
      \<and> (isinstance_int (throughput_target_gbps cfg)
           \<or> isinstance_float (throughput_target_gbps cfg)
           \<or> throughput_target_gbps cfg = PyNone)
      \<and> (isinstance_int (throughput_per_vip_gbps cfg)
           \<or> isinstance_float (throughput_per_vip_gbps cfg)
           \<or> throughput_per_vip_gbps cfg = PyNone)
      \<and> (isinstance_int (num_connections_per_vip cfg)
           \<or> num_connections_per_vip cfg = PyNone))"

text \<open>
  \<^verbatim>\<open>if not credential_provider: credential_provider = AwsCredentialsProvider.new_default_chain(bootstrap)\<close>
\<close>

definition S3Client_credentials :: "native \<Rightarrow> client_config \<Rightarrow> exc + pyval" where
  "S3Client_credentials N cfg =
     (if \<not> truthy (credential_provider cfg) then new_default_chain N (bootstrap cfg)
      else Inr (credential_provider cfg))"

text \<open>
  The arguments of \<^verbatim>\<open>_awscrt.s3_client_new\<close>, in the order of the call: the
  configuration as it was given, except for the credentials provider \<open>cp\<close>, and the
  closure \<^verbatim>\<open>on_shutdown\<close>, named by the future \<open>sf\<close> it captures.
\<close>

definition S3Client_args :: "client_config \<Rightarrow> pyval \<Rightarrow> nat \<Rightarrow> client_args" where
  "S3Client_args cfg cp sf =
     \<lparr>arg_bootstrap = bootstrap cfg,
      arg_credential_provider = cp,
      arg_tls_connection_options = tls_connection_options cfg,
      arg_on_shutdown = sf,
      arg_region = region cfg,
      arg_part_size = part_size cfg,
      arg_connection_timeout_ms = connection_timeout_ms cfg,
      arg_throughput_target_gbps = throughput_target_gbps cfg,
      arg_throughput_per_vip_gbps = throughput_per_vip_gbps cfg,
      arg_num_connections_per_vip = num_connections_per_vip cfg\<rparr>"

text \<open>
  \<^verbatim>\<open>S3Client.__init__\<close>: the assertions, the default credentials provider, the
  shutdown future and its closure, then the native client. The initialiser of the base
  class \<^verbatim>\<open>NativeResource\<close> lies outside the source and is taken to return without
  touching the state modelled here.
\<close>

definition S3Client_init :: "native \<Rightarrow> client_config \<Rightarrow> world \<Rightarrow> exc + (S3Client \<times> world)" where
  "S3Client_init N cfg w =
     (if \<not> S3Client_asserts cfg then Inl AssertionError
      else case S3Client_credentials N cfg of
        Inl e \<Rightarrow> Inl e
      | Inr cp \<Rightarrow>
          (case Future_new w of (sf, w1) \<Rightarrow>
             (case s3_client_new N (S3Client_args cfg cp sf) of
                Inl e \<Rightarrow> Inl e
              | Inr b \<Rightarrow> Inr (\<lparr>shutdown_future = sf, client_binding = b\<rparr>, w1))))"

text \<open>The closure \<^verbatim>\<open>on_shutdown\<close>: \<^verbatim>\<open>shutdown_future.set_result(None)\<close>.\<close>

definition S3Client_on_shutdown :: "nat \<Rightarrow> world \<Rightarrow> exc + world" where
  "S3Client_on_shutdown sf w = set_result sf PyNone w"

text \<open>
  The native client may call the closure any number of times; an exception that leaves
  it changes nothing.
\<close>

primrec S3Client_on_shutdown_times :: "nat \<Rightarrow> nat \<Rightarrow> world \<Rightarrow> world" where
  "S3Client_on_shutdown_times 0 sf w = w"
| "S3Client_on_shutdown_times (Suc n) sf w =
     S3Client_on_shutdown_times n sf
       (case S3Client_on_shutdown sf w of Inl e \<Rightarrow> w | Inr w' \<Rightarrow> w')"

text \<open>
  What an attribute of an object is: a future, a plain value, a client, a native binding
  or a method of the class.
\<close>

datatype attribute =
    AFuture nat
  | AValue pyval
  | AClient S3Client
  | ABinding nat
  | AMethod string

text \<open>
  Attribute lookup on an \<^verbatim>\<open>S3Client\<close>: the slot \<^verbatim>\<open>shutdown_future\<close> and the
  methods \<^verbatim>\<open>__init__\<close> and \<^verbatim>\<open>make_request\<close> that the class body defines, and
  \<^verbatim>\<open>_binding\<close>, which the constructor assigns and the base class
  \<^verbatim>\<open>NativeResource\<close> therefore admits. Any other name is an
  \<^verbatim>\<open>AttributeError\<close>; what every Python object inherits from \<^verbatim>\<open>object\<close> is
  left out.
\<close>

definition S3Client_getattr :: "S3Client \<Rightarrow> string \<Rightarrow> exc + attribute" where
  "S3Client_getattr self name =
     (if name = ''shutdown_future'' then Inr (AFuture (shutdown_future self))
      else if name = ''_binding'' then Inr (ABinding (client_binding self))
      else if name \<in> set [''__init__'', ''make_request''] then Inr (AMethod name)
      else Inl AttributeError)"

section \<open>S3Request\<close>

text \<open>
  The slots of \<^verbatim>\<open>S3Request\<close>; a leading underscore of the source is written
  \<open>p_\<close>. The two futures are references into the store.
\<close>

record S3Request =
  p_on_headers_cb :: pyval
  p_on_body_cb :: pyval
  p_client :: S3Client
  p_finished_future :: nat
  p_shutdown_future :: nat
  request_binding :: nat

text \<open>
  \<^verbatim>\<open>S3Request.__init__\<close>. The client is an \<open>S3Client\<close> by its type, which is the
  first assertion; \<^verbatim>\<open>type\<close> is not checked and goes to the native call as it is.
\<close>

definition S3Request_init ::
    "native \<Rightarrow> S3Client \<Rightarrow> pyval \<Rightarrow> pyval \<Rightarrow> pyval \<Rightarrow> pyval \<Rightarrow> world \<Rightarrow> exc + (S3Request \<times> world)" where
  "S3Request_init N cl request type on_headers on_body w =
     (if \<not> isinstance request HttpRequest then Inl AssertionError
      else if \<not> (callable on_headers \<or> on_headers = PyNone) then Inl AssertionError
      else if \<not> (callable on_body \<or> on_body = PyNone) then Inl AssertionError
      else case Future_new w of (ff, w1) \<Rightarrow>
        (case Future_new w1 of (sf, w2) \<Rightarrow>
           (case s3_client_make_meta_request N (client_binding cl) request type of
              Inl e \<Rightarrow> Inl e
            | Inr b \<Rightarrow>
                Inr (\<lparr>p_on_headers_cb = on_headers, p_on_body_cb = on_body, p_client = cl,
                      p_finished_future = ff, p_shutdown_future = sf, request_binding = b\<rparr>,
                     w2))))"

text \<open>The properties \<^verbatim>\<open>finished_future\<close> and \<^verbatim>\<open>shutdown_future\<close>.\<close>

definition S3Request_finished_future :: "S3Request \<Rightarrow> nat" where
  "S3Request_finished_future self = p_finished_future self"

definition S3Request_shutdown_future :: "S3Request \<Rightarrow> nat" where
  "S3Request_shutdown_future self = p_shutdown_future self"

text \<open>
  Attribute lookup on an \<^verbatim>\<open>S3Request\<close>: the five slots, the two properties and the
  five methods that the class body defines, and \<^verbatim>\<open>_binding\<close>, which the constructor
  assigns and the base class \<^verbatim>\<open>NativeResource\<close> therefore admits. Any other name is
  an \<^verbatim>\<open>AttributeError\<close>; what every Python object inherits from \<^verbatim>\<open>object\<close> is
  left out.
\<close>

definition S3Request_getattr :: "S3Request \<Rightarrow> string \<Rightarrow> exc + attribute" where
  "S3Request_getattr self name =
     (if name = ''_on_headers_cb'' then Inr (AValue (p_on_headers_cb self))
      else if name = ''_on_body_cb'' then Inr (AValue (p_on_body_cb self))
      else if name = ''_finished_future'' then Inr (AFuture (p_finished_future self))
      else if name = ''_shutdown_future'' then Inr (AFuture (p_shutdown_future self))
      else if name = ''_client'' then Inr (AClient (p_client self))
      else if name = ''_binding'' then Inr (ABinding (request_binding self))
      else if name = ''finished_future'' then Inr (AFuture (S3Request_finished_future self))
      else if name = ''shutdown_future'' then Inr (AFuture (S3Request_shutdown_future self))
      else if name \<in> set [''__init__'', ''_on_headers'', ''_on_body'', ''_on_finish'',
                            ''_on_shutdown''] then Inr (AMethod name)
      else Inl AttributeError)"

text \<open>
  A callback handed to the native meta request either returns, with the object and the
  world as it leaves them, or raises, with the world as it is when the exception leaves.
\<close>

datatype 'a outcome = Returned 'a world | Raised exc world

fun outcome_world :: "'a outcome \<Rightarrow> world" where
  "outcome_world (Returned x w) = w"
| "outcome_world (Raised e w) = w"

text \<open>
  The user's callbacks are functions of the caller, outside the source: what one does when
  it is called with given arguments, return or raise, is a parameter of the model. The
  call is entered in the world's record of calls either way; what else the user's function
  does is not modelled.
\<close>

type_synonym user = "call \<Rightarrow> exc option"

definition call_user :: "user \<Rightarrow> call \<Rightarrow> S3Request \<Rightarrow> world \<Rightarrow> S3Request outcome" where
  "call_user U c self w =
     (case U c of
        None \<Rightarrow> Returned self (w\<lparr>calls := calls w @ [c]\<rparr>)
      | Some e \<Rightarrow> Raised e (w\<lparr>calls := calls w @ [c]\<rparr>))"

text \<open>The four callbacks handed to the native meta request.\<close>

definition S3Request_on_headers ::
    "user \<Rightarrow> S3Request \<Rightarrow> int \<Rightarrow> headers \<Rightarrow> world \<Rightarrow> S3Request outcome" where
  "S3Request_on_headers U self status_code hdrs w =
     (if truthy (p_on_headers_cb self)
      then call_user U (Call_on_headers (p_on_headers_cb self) status_code hdrs) self w
      else Returned self w)"

definition S3Request_on_body ::
    "user \<Rightarrow> S3Request \<Rightarrow> bytes \<Rightarrow> world \<Rightarrow> S3Request outcome" where
  "S3Request_on_body U self chunk w =
     (if truthy (p_on_body_cb self)
      then call_user U (Call_on_body (p_on_body_cb self) chunk) self w
      else Returned self w)"

text \<open>
  \<^verbatim>\<open>_on_finish\<close>: for a code that is not zero the argument
  \<^verbatim>\<open>_awscrt.exceptions.from_code(error_code)\<close> is evaluated first, and when that raises
  the future is not touched.
\<close>

definition S3Request_on_finish ::
    "native \<Rightarrow> S3Request \<Rightarrow> int \<Rightarrow> world \<Rightarrow> S3Request outcome" where
  "S3Request_on_finish N self error_code w =
     (if error_code \<noteq> 0
      then (case from_code N error_code of
              Inl x \<Rightarrow> Raised x w
            | Inr e \<Rightarrow>
                (case set_exception (p_finished_future self) e w of
                   Inl x \<Rightarrow> Raised x w | Inr w' \<Rightarrow> Returned self w'))
      else (case set_result (p_finished_future self) (PyStr ''what?'') w of
              Inl x \<Rightarrow> Raised x w | Inr w' \<Rightarrow> Returned self w'))"

definition S3Request_on_shutdown :: "S3Request \<Rightarrow> world \<Rightarrow> S3Request outcome" where
  "S3Request_on_shutdown self w =
     (case set_result (S3Request_shutdown_future self) (PyStr ''what?'') w of
        Inl x \<Rightarrow> Raised x w | Inr w' \<Rightarrow> Returned self w')"

text \<open>
  \<^verbatim>\<open>S3Client.make_request(self, *, request, type, on_headers=None, on_body=None)\<close>.
  The arguments are keyword-only: a repeated keyword, a keyword the signature does not
  have, or a missing \<^verbatim>\<open>request\<close> or \<^verbatim>\<open>type\<close> is a \<^verbatim>\<open>TypeError\<close>.
\<close>

definition kwarg :: "(string \<times> pyval) list \<Rightarrow> string \<Rightarrow> pyval \<Rightarrow> pyval" where
  "kwarg kw k d = (case map_of kw k of None \<Rightarrow> d | Some v \<Rightarrow> v)"

definition S3Client_make_request ::
    "native \<Rightarrow> S3Client \<Rightarrow> (string \<times> pyval) list \<Rightarrow> world \<Rightarrow> exc + (S3Request \<times> world)" where
  "S3Client_make_request N self kw w =
     (if \<not> distinct (map fst kw) then Inl TypeError
      else if \<not> list_all (\<lambda>k. k \<in> set [''request'', ''type'', ''on_headers'', ''on_body''])
                         (map fst kw) then Inl TypeError
      else case map_of kw ''request'' of
        None \<Rightarrow> Inl TypeError
      | Some request \<Rightarrow>
          (case map_of kw ''type'' of
             None \<Rightarrow> Inl TypeError
           | Some type \<Rightarrow>
               S3Request_init N self request type
                 (kwarg kw ''on_headers'' PyNone) (kwarg kw ''on_body'' PyNone) w))"

section \<open>Events from the native meta request\<close>

text \<open>
  The native meta request reaches the Python object only through the four callbacks. A
  run delivers a sequence of such events; an exception that leaves a callback is recorded,
  and the run goes on from the world in which the exception left.
\<close>

datatype event = Headers int headers | Body bytes | Finish int | Shutdown

fun deliver :: "native \<Rightarrow> user \<Rightarrow> event \<Rightarrow> S3Request \<Rightarrow> world \<Rightarrow> S3Request outcome" where
  "deliver N U (Headers status_code hdrs) self w = S3Request_on_headers U self status_code hdrs w"
| "deliver N U (Body chunk) self w = S3Request_on_body U self chunk w"
| "deliver N U (Finish error_code) self w = S3Request_on_finish N self error_code w"
| "deliver N U Shutdown self w = S3Request_on_shutdown self w"

record session =
  s_request :: S3Request
  s_world :: world
  s_raised :: "exc list"

definition post :: "native \<Rightarrow> user \<Rightarrow> session \<Rightarrow> event \<Rightarrow> session" where
  "post N U s ev =
     (case deliver N U ev (s_request s) (s_world s) of
        Returned r w \<Rightarrow> s\<lparr>s_request := r, s_world := w\<rparr>
      | Raised e w \<Rightarrow> s\<lparr>s_world := w, s_raised := s_raised s @ [e]\<rparr>)"

definition run :: "native \<Rightarrow> user \<Rightarrow> event list \<Rightarrow> session \<Rightarrow> session" where
  "run N U evs s = foldl (post N U) s evs"

definition new_session :: "S3Request \<Rightarrow> world \<Rightarrow> session" where
  "new_session r w = \<lparr>s_request = r, s_world = w, s_raised = []\<rparr>"

text \<open>
  The calls of the user's callbacks that an event causes: a callback that is absent, or
  false in a truth test, is skipped.
\<close>

fun user_call :: "S3Request \<Rightarrow> event \<Rightarrow> call list" where
  "user_call r (Headers status_code hdrs) =
     (if truthy (p_on_headers_cb r)
      then [Call_on_headers (p_on_headers_cb r) status_code hdrs] else [])"
| "user_call r (Body chunk) =
     (if truthy (p_on_body_cb r) then [Call_on_body (p_on_body_cb r) chunk] else [])"
| "user_call r (Finish error_code) = []"
| "user_call r Shutdown = []"

text \<open>An optional keyword argument: left out of the call, or given.\<close>

fun supplied :: "string \<Rightarrow> pyval option \<Rightarrow> (string \<times> pyval) list" where
  "supplied k None = []"
| "supplied k (Some f) = [(k, f)]"

fun slot_value :: "pyval option \<Rightarrow> pyval" where
  "slot_value None = PyNone"
| "slot_value (Some f) = f"

section \<open>The ordering contract\<close>

text \<open>
  Modelled from the spec: the order in which the native meta request, which is not part of
  the source, delivers its events (Result Reporting): at most one header event, then zero
  or more body-chunk events, then exactly one terminal event. The source has no progress
  event. The signal that the resources are released is a separate one and may follow the
  terminal event.
\<close>

fun body_then_terminal :: "event list \<Rightarrow> bool" where
  "body_then_terminal [] = False"
| "body_then_terminal (Body chunk # evs) = body_then_terminal evs"
| "body_then_terminal (Finish error_code # evs) = (evs = [] \<or> evs = [Shutdown])"
| "body_then_terminal (ev # evs) = False"

fun ordered_events :: "event list \<Rightarrow> bool" where
  "ordered_events (Headers status_code hdrs # evs) = body_then_terminal evs"
| "ordered_events evs = body_then_terminal evs"

text \<open>
  The same order for the calls of the user's callbacks: at most one call of
  \<^verbatim>\<open>on_headers\<close>, which comes first, and then calls of \<^verbatim>\<open>on_body\<close> only.
\<close>

fun body_calls_only :: "call list \<Rightarrow> bool" where
  "body_calls_only [] = True"
| "body_calls_only (Call_on_body cb chunk # cs) = body_calls_only cs"
| "body_calls_only (c # cs) = False"

fun ordered_calls :: "call list \<Rightarrow> bool" where
  "ordered_calls (Call_on_headers cb status_code hdrs # cs) = body_calls_only cs"
| "ordered_calls cs = body_calls_only cs"

section \<open>Observing the finished future\<close>

text \<open>The state of a request's finished future in a session, and how often it has fired.\<close>

definition session_state :: "session \<Rightarrow> fstate" where
  "session_state s =
     fut_state (futures (s_world s) ! S3Request_finished_future (s_request s))"

definition session_fired :: "session \<Rightarrow> nat" where
  "session_fired s =
     fut_notified (futures (s_world s) ! S3Request_finished_future (s_request s))"

text \<open>
  The invariant of a session: the finished future is in the store, and it has fired never
  while it is pending and once when it is done.
\<close>

definition resolved_once :: "session \<Rightarrow> bool" where
  "resolved_once s =
     (S3Request_finished_future (s_request s) < length (futures (s_world s))
      \<and> (if session_state s = PENDING then session_fired s = 0 else session_fired s = 1))"

section \<open>The Part Scheduler\<close>

text \<open>
  Modelled from the spec: the Part Scheduler, which belongs to the native transfer engine
  and is not part of the source. For an object of \<open>S\<close> bytes and an effective part size
  \<open>P\<close> (the client has replaced a part size of 0 by its default before planning) the
  plan is the ascending sequence of byte ranges \<open>[start, end)\<close>, each of at most \<open>P\<close>
  bytes, the last one possibly smaller; an object of size 0 yields exactly one
  zero-length part. \<open>plan_from\<close> is the scheduler's loop from the offset \<open>off\<close>.
\<close>

function plan_from :: "nat \<Rightarrow> nat \<Rightarrow> nat \<Rightarrow> (nat \<times> nat) list" where
  "plan_from P S off =
     (if P = 0 \<or> S \<le> off then []
      else (off, min (off + P) S) # plan_from P S (off + P))"
  by pat_completeness auto
termination
  by (relation "measure (\<lambda>(P, S, off). S - off)") auto

declare plan_from.simps [simp del]

text \<open>Modelled from the spec: \<^verbatim>\<open>plan(meta_request)\<close> of the Part Scheduler.\<close>

definition plan :: "nat \<Rightarrow> nat \<Rightarrow> (nat \<times> nat) list" where
  "plan S P = (if S = 0 then [(0, 0)] else plan_from P S 0)"

text \<open>
  What it means for ranges to partition \<open>[a, b)\<close> in order: the first starts at \<open>a\<close>,
  each next one starts where the one before ended, and the last ends at \<open>b\<close>.
\<close>

fun contiguous :: "nat \<Rightarrow> (nat \<times> nat) list \<Rightarrow> nat \<Rightarrow> bool" where
  "contiguous a [] b = (a = b)"
| "contiguous a ((s, e) # rs) b = (s = a \<and> s \<le> e \<and> contiguous e rs b)"

text \<open>The number of bytes of a range, and the bytes that a list of ranges covers.\<close>

definition part_length :: "nat \<times> nat \<Rightarrow> nat" where
  "part_length r = snd r - fst r"

definition covered :: "(nat \<times> nat) list \<Rightarrow> nat set" where
  "covered rs = (\<Union>r \<in> set rs. {fst r ..< snd r})"

definition MiB :: nat where
  "MiB = 1048576"

section \<open>Concrete instances\<close>

text \<open>
  A native module that creates every client and every meta request it is asked for and
  makes an exception from every code, and the objects of a small session with it.
\<close>

definition permissive_native :: native where
  "permissive_native =
     \<lparr>s3_client_new = (\<lambda>a. Inr 1),
      s3_client_make_meta_request = (\<lambda>c r t. Inr 2),
      from_code = (\<lambda>c. Inr (AwsCrtError c)),
      new_default_chain = (\<lambda>b. Inr (PyObj AwsCredentialsProvider 0 True False))\<rparr>"

text \<open>
  The native module as the source reaches it. The source imports the extension module
  \<^verbatim>\<open>_awscrt\<close> only, and \<^verbatim>\<open>from_code\<close> is a function of the Python module
  \<^verbatim>\<open>awscrt.exceptions\<close>, which it does not import: the extension module has no
  attribute \<^verbatim>\<open>exceptions\<close>, and evaluating \<^verbatim>\<open>_awscrt.exceptions.from_code(code)\<close>
  raises \<^verbatim>\<open>AttributeError\<close>.
\<close>

definition extension_native :: native where
  "extension_native =
     \<lparr>s3_client_new = (\<lambda>a. Inr 1),
      s3_client_make_meta_request = (\<lambda>c r t. Inr 2),
      from_code = (\<lambda>c. Inl AttributeError),
      new_default_chain = (\<lambda>b. Inr (PyObj AwsCredentialsProvider 0 True False))\<rparr>"

text \<open>User callbacks that return, and user callbacks that raise.\<close>

definition quiet_user :: user where
  "quiet_user = (\<lambda>c. None)"

definition failing_user :: user where
  "failing_user = (\<lambda>c. Some RuntimeError)"

definition example_config :: client_config where
  "example_config = default_config (PyObj ClientBootstrap 5 True False) (PyStr ''us-west-2'')"

definition negative_config :: client_config where
  "negative_config = example_config\<lparr>part_size := PyInt (- 1),
     throughput_target_gbps := PyFloat (- 1), num_connections_per_vip := PyInt (- 1)\<rparr>"

definition pending :: future where
  "pending = \<lparr>fut_state = PENDING, fut_notified = 0\<rparr>"

definition empty_world :: world where
  "empty_world = \<lparr>futures = [], calls = []\<rparr>"

definition example_client :: S3Client where
  "example_client = \<lparr>shutdown_future = 0, client_binding = 1\<rparr>"

definition example_world :: world where
  "example_world = \<lparr>futures = [pending], calls = []\<rparr>"

definition example_request :: pyval where
  "example_request = PyObj HttpRequest 9 True False"

definition example_kwargs :: "(string \<times> pyval) list" where
  "example_kwargs =
     [(''request'', example_request), (''type'', request_type_value GET_OBJECT),
      (''on_headers'', PyFunc 1)]"

definition example_S3Request :: S3Request where
  "example_S3Request =
     \<lparr>p_on_headers_cb = PyFunc 1, p_on_body_cb = PyNone, p_client = example_client,
      p_finished_future = 1, p_shutdown_future = 2, request_binding = 2\<rparr>"

definition example_world2 :: world where
  "example_world2 = \<lparr>futures = [pending, pending, pending], calls = []\<rparr>"

section \<open>Facts about the store and the callbacks\<close>

lemma example_client_init:
  "S3Client_init permissive_native example_config empty_world = Inr (example_client, example_world)"
  by (simp add: S3Client_init_def permissive_native_def example_config_def default_config_def
      empty_world_def S3Client_asserts_def S3Client_credentials_def Future_new_def
      example_client_def example_world_def pending_def)

lemma example_make_request:
  "S3Client_make_request permissive_native example_client example_kwargs example_world
     = Inr (example_S3Request, example_world2)"
  by (simp add: S3Client_make_request_def example_kwargs_def S3Request_init_def
      permissive_native_def example_request_def example_client_def example_world_def
      Future_new_def kwarg_def example_S3Request_def example_world2_def pending_def)

lemma S3Request_init_result:
  assumes "S3Request_init N cl request type on_headers on_body w = Inr (r, w0)"
  shows "p_client r = cl" "p_on_headers_cb r = on_headers" "p_on_body_cb r = on_body"
    "p_finished_future r = length (futures w)" "p_shutdown_future r = Suc (length (futures w))"
    "futures w0 = futures w @ [\<lparr>fut_state = PENDING, fut_notified = 0\<rparr>,
                               \<lparr>fut_state = PENDING, fut_notified = 0\<rparr>]"
    "calls w0 = calls w"
  using assms
  by (auto simp add: S3Request_init_def Future_new_def split: if_splits sum.splits)

lemma make_request_init:
  assumes "S3Client_make_request N cl kw w = Inr (r, w0)"
  shows "\<exists>request type. S3Request_init N cl request type
            (kwarg kw ''on_headers'' PyNone) (kwarg kw ''on_body'' PyNone) w = Inr (r, w0)"
  using assms
  by (auto simp add: S3Client_make_request_def split: if_splits option.splits)

lemma deliver_self:
  assumes "deliver N U ev r w = Returned r' w'"
  shows "r' = r"
  using assms
  by (cases ev) (auto simp add: S3Request_on_headers_def S3Request_on_body_def
      S3Request_on_finish_def S3Request_on_shutdown_def call_user_def
      split: if_splits sum.splits option.splits)

lemma post_request: "s_request (post N U s ev) = s_request s"
  by (auto simp add: post_def split: outcome.splits dest: deliver_self)

lemma run_request: "s_request (run N U evs s) = s_request s"
  unfolding run_def by (induction evs arbitrary: s) (simp_all add: post_request)

lemma run_append: "run N U (xs @ ys) s = run N U ys (run N U xs s)"
  by (simp add: run_def)

lemma post_calls:
  "calls (s_world (post N U s ev)) = calls (s_world s) @ user_call (s_request s) ev"
  by (cases ev)
     (auto simp add: post_def S3Request_on_headers_def S3Request_on_body_def
        S3Request_on_finish_def S3Request_on_shutdown_def set_result_def set_exception_def
        resolve_def call_user_def split: sum.splits if_splits option.splits)

lemma run_calls:
  "calls (s_world (run N U evs s))
     = calls (s_world s) @ concat (map (user_call (s_request s)) evs)"
proof (induction evs arbitrary: s)
  case Nil
  then show ?case by (simp add: run_def)
next
  case (Cons ev evs)
  have "run N U (ev # evs) s = run N U evs (post N U s ev)" by (simp add: run_def)
  then show ?case using Cons.IH [of "post N U s ev"] by (simp add: post_calls post_request)
qed

lemma make_request_supplied:
  assumes "isinstance request HttpRequest"
    and "s3_client_make_meta_request N (client_binding cl) request type = Inr b"
    and "\<forall>f. oh = Some f \<longrightarrow> callable f" and "\<forall>f. ob = Some f \<longrightarrow> callable f"
  shows "S3Client_make_request N cl
           ([(''request'', request), (''type'', type)]
              @ supplied ''on_headers'' oh @ supplied ''on_body'' ob) w
         = Inr (\<lparr>p_on_headers_cb = slot_value oh, p_on_body_cb = slot_value ob, p_client = cl,
                 p_finished_future = length (futures w),
                 p_shutdown_future = Suc (length (futures w)), request_binding = b\<rparr>,
                snd (Future_new (snd (Future_new w))))"
  using assms
  by (cases oh; cases ob)
     (simp_all add: S3Client_make_request_def S3Request_init_def kwarg_def Future_new_def)

lemma body_then_terminal_calls:
  "body_then_terminal evs \<Longrightarrow> body_calls_only (concat (map (user_call r) evs))"
proof (induction evs rule: body_then_terminal.induct)
  case (3 error_code evs)
  then show ?case by auto
qed simp_all

lemma body_calls_ordered: "body_calls_only cs \<Longrightarrow> ordered_calls cs"
  by (cases cs rule: ordered_calls.cases) simp_all

lemma ordered_events_shape:
  "ordered_events evs \<Longrightarrow>
     (\<exists>status_code hdrs evs'. evs = Headers status_code hdrs # evs' \<and> body_then_terminal evs')
     \<or> body_then_terminal evs"
  by (cases evs rule: ordered_events.cases) simp_all

lemma ordered_events_calls:
  assumes "ordered_events evs"
  shows "ordered_calls (concat (map (user_call r) evs))"
  using ordered_events_shape [OF assms]
proof
  assume "\<exists>status_code hdrs evs'. evs = Headers status_code hdrs # evs' \<and> body_then_terminal evs'"
  then obtain status_code hdrs evs' where
    e: "evs = Headers status_code hdrs # evs'" and b: "body_then_terminal evs'" by blast
  have c: "body_calls_only (concat (map (user_call r) evs'))"
    using b by (rule body_then_terminal_calls)
  show ?thesis
  proof (cases "truthy (p_on_headers_cb r)")
    case True
    with e c show ?thesis by simp
  next
    case False
    with e body_calls_ordered [OF c] show ?thesis by simp
  qed
next
  assume "body_then_terminal evs"
  then have "body_calls_only (concat (map (user_call r) evs))"
    by (rule body_then_terminal_calls)
  then show ?thesis by (rule body_calls_ordered)
qed

lemma body_then_terminal_last:
  "body_then_terminal evs \<Longrightarrow> evs = pre @ Finish c # rest \<Longrightarrow>
     concat (map (user_call r) rest) = []"
proof (induction evs arbitrary: pre)
  case Nil
  then show ?case by simp
next
  case (Cons ev evs)
  show ?case
  proof (cases ev)
    case (Headers status_code hdrs)
    with Cons.prems(1) show ?thesis by simp
  next
    case (Body chunk)
    with Cons.prems(1) have b: "body_then_terminal evs" by simp
    from Cons.prems(2) Body obtain pre' where "evs = pre' @ Finish c # rest"
      by (cases pre) auto
    with b show ?thesis by (rule Cons.IH)
  next
    case (Finish error_code)
    with Cons.prems(1) have "evs = [] \<or> evs = [Shutdown]" by simp
    with Cons.prems(2) Finish show ?thesis
      by (cases pre) (auto simp add: append_eq_Cons_conv)
  next
    case Shutdown
    with Cons.prems(1) show ?thesis by simp
  qed
qed

lemma ordered_events_last:
  assumes "ordered_events evs" "evs = pre @ Finish c # rest"
  shows "concat (map (user_call r) rest) = []"
  using ordered_events_shape [OF assms(1)]
proof
  assume "\<exists>status_code hdrs evs'. evs = Headers status_code hdrs # evs' \<and> body_then_terminal evs'"
  then obtain status_code hdrs evs' where
    e: "evs = Headers status_code hdrs # evs'" and b: "body_then_terminal evs'" by blast
  from e assms(2) obtain pre' where "evs' = pre' @ Finish c # rest"
    by (cases pre) auto
  with b show ?thesis by (rule body_then_terminal_last)
next
  assume "body_then_terminal evs"
  then show ?thesis using assms(2) by (rule body_then_terminal_last)
qed

section \<open>Client construction\<close>

text \<open>
  C2, as the claim states it, fails: a configuration whose part size, throughput target
  and connection count are all negative passes every check of the constructor, and with a
  native module that accepts its arguments the client is produced.
\<close>

theorem negative_configuration_counterexample:
  "part_size negative_config = PyInt (- 1)
   \<and> throughput_target_gbps negative_config = PyFloat (- 1)
   \<and> num_connections_per_vip negative_config = PyInt (- 1)
   \<and> S3Client_init permissive_native negative_config empty_world
        = Inr (example_client, example_world)"
  by (simp add: S3Client_init_def permissive_native_def example_config_def default_config_def
      negative_config_def empty_world_def S3Client_asserts_def S3Client_credentials_def
      Future_new_def example_client_def example_world_def pending_def)

text \<open>
  C2, amended: the constructor checks the types of its configuration and nothing else. A
  configuration that fails a check, such as TLS options that are neither a
  \<^verbatim>\<open>TlsConnectionOptions\<close> nor \<^verbatim>\<open>None\<close>, fails with an assertion error and no
  client is produced. The checks do not depend on the sign of the part size, the
  throughput target or the connection count; these go to the native constructor as they
  were given, and the constructor's outcome is the native constructor's.
\<close>

theorem client_validates_types_only:
  "(\<not> S3Client_asserts cfg \<longrightarrow> S3Client_init N cfg w = Inl AssertionError)
   \<and> (\<not> (isinstance (tls_connection_options cfg) TlsConnectionOptions
           \<or> tls_connection_options cfg = PyNone) \<longrightarrow> S3Client_init N cfg w = Inl AssertionError)
   \<and> (S3Client_asserts cfg \<longrightarrow>
        S3Client_asserts (cfg\<lparr>part_size := PyInt p, throughput_target_gbps := PyFloat t,
                              num_connections_per_vip := PyInt c\<rparr>)
        \<and> S3Client_asserts (cfg\<lparr>part_size := PyInt p, throughput_target_gbps := PyInt g,
                              num_connections_per_vip := PyInt c\<rparr>))
   \<and> (S3Client_asserts cfg \<longrightarrow>
        (\<forall>cp. S3Client_credentials N cfg = Inr cp \<longrightarrow>
           arg_part_size (S3Client_args cfg cp (length (futures w))) = part_size cfg
           \<and> arg_throughput_target_gbps (S3Client_args cfg cp (length (futures w)))
                = throughput_target_gbps cfg
           \<and> arg_num_connections_per_vip (S3Client_args cfg cp (length (futures w)))
                = num_connections_per_vip cfg
           \<and> S3Client_init N cfg w =
               (case s3_client_new N (S3Client_args cfg cp (length (futures w))) of
                  Inl e \<Rightarrow> Inl e
                | Inr b \<Rightarrow> Inr (\<lparr>shutdown_future = length (futures w), client_binding = b\<rparr>,
                               snd (Future_new w)))))"
  by (auto simp add: S3Client_init_def S3Client_asserts_def S3Client_args_def Future_new_def
      split: sum.splits)

theorem client_validates_types_only_witness:
  "S3Client_asserts example_config
   \<and> S3Client_asserts negative_config
   \<and> S3Client_init permissive_native
        (example_config\<lparr>tls_connection_options := PyStr ''tls''\<rparr>) empty_world
        = Inl AssertionError
   \<and> S3Client_init permissive_native example_config empty_world
        = Inr (example_client, example_world)"
  using client_validates_types_only
      [of "example_config\<lparr>tls_connection_options := PyStr ''tls''\<rparr>"
          permissive_native empty_world "- 1" "- 1" "- 1" "- 1"]
    client_validates_types_only
      [of example_config permissive_native empty_world "- 1" "- 1" "- 1" "- 1"]
  by (simp add: permissive_native_def example_config_def default_config_def
      negative_config_def empty_world_def S3Client_asserts_def S3Client_credentials_def
      Future_new_def example_client_def example_world_def S3Client_args_def pending_def)

text \<open>
  C10: when the configuration passes the assertions and its credentials provider is
  false in a truth test (\<^verbatim>\<open>None\<close>, or an instance that is false), the provider handed
  to the native constructor is the one \<^verbatim>\<open>new_default_chain\<close> returns for the
  configuration's bootstrap; a provider that is true is handed over as it was given.
\<close>

theorem default_credentials_provider:
  assumes "S3Client_asserts cfg"
  shows "(\<not> truthy (credential_provider cfg) \<longrightarrow>
            (\<forall>p. new_default_chain N (bootstrap cfg) = Inr p \<longrightarrow>
               arg_credential_provider (S3Client_args cfg p (length (futures w))) = p
               \<and> S3Client_init N cfg w =
                  (case s3_client_new N (S3Client_args cfg p (length (futures w))) of
                     Inl e \<Rightarrow> Inl e
                   | Inr b \<Rightarrow> Inr (\<lparr>shutdown_future = length (futures w), client_binding = b\<rparr>,
                                  snd (Future_new w)))))
       \<and> (truthy (credential_provider cfg) \<longrightarrow>
            arg_credential_provider
                (S3Client_args cfg (credential_provider cfg) (length (futures w)))
               = credential_provider cfg
            \<and> S3Client_init N cfg w =
               (case s3_client_new N
                       (S3Client_args cfg (credential_provider cfg) (length (futures w))) of
                  Inl e \<Rightarrow> Inl e
                | Inr b \<Rightarrow> Inr (\<lparr>shutdown_future = length (futures w), client_binding = b\<rparr>,
                               snd (Future_new w))))"
  using assms
  by (auto simp add: S3Client_init_def S3Client_credentials_def S3Client_args_def Future_new_def
      split: sum.splits)

theorem default_credentials_provider_witness:
  "S3Client_asserts example_config
   \<and> \<not> truthy (credential_provider example_config)
   \<and> new_default_chain permissive_native (bootstrap example_config)
        = Inr (PyObj AwsCredentialsProvider 0 True False)
   \<and> arg_credential_provider
        (S3Client_args example_config (PyObj AwsCredentialsProvider 0 True False) 0)
        = PyObj AwsCredentialsProvider 0 True False
   \<and> S3Client_init permissive_native example_config empty_world
        = Inr (example_client, example_world)
   \<and> arg_credential_provider
        (S3Client_args (example_config\<lparr>credential_provider := PyObj AwsCredentialsProvider 8 True False\<rparr>)
           (PyObj AwsCredentialsProvider 8 True False) 0)
        = PyObj AwsCredentialsProvider 8 True False"
proof -
  have a: "S3Client_asserts example_config"
    by (simp add: S3Client_asserts_def example_config_def default_config_def)
  have b: "S3Client_asserts (example_config\<lparr>credential_provider := PyObj AwsCredentialsProvider 8 True False\<rparr>)"
    by (simp add: S3Client_asserts_def example_config_def default_config_def)
  show ?thesis
    using a default_credentials_provider [OF a, of permissive_native empty_world]
      default_credentials_provider [OF b, of permissive_native empty_world]
    by (simp add: permissive_native_def example_config_def default_config_def
      empty_world_def Future_new_def example_client_def example_world_def S3Client_args_def
      pending_def)
qed

section \<open>The shutdown signal of a client\<close>

lemma S3Client_init_result:
  assumes "S3Client_init N cfg w = Inr (cl, w0)"
  shows "shutdown_future cl = length (futures w)"
    and "futures w0 = futures w @ [\<lparr>fut_state = PENDING, fut_notified = 0\<rparr>]"
    and "calls w0 = calls w"
  using assms
  by (auto simp add: S3Client_init_def Future_new_def split: if_splits sum.splits)

lemma on_shutdown_times_done:
  "sf < length (futures w) \<Longrightarrow> fut_state (futures w ! sf) \<noteq> PENDING \<Longrightarrow>
     S3Client_on_shutdown_times n sf w = w"
  by (induction n) (simp_all add: S3Client_on_shutdown_def set_result_def resolve_def)

text \<open>
  C7, as the claim states it, fails: the class \<^verbatim>\<open>S3Client\<close> defines no
  \<^verbatim>\<open>shutdown\<close>, and looking it up on a client is an attribute error.
\<close>

theorem shutdown_operation_counterexample:
  "S3Client_init permissive_native example_config empty_world = Inr (example_client, example_world)
   \<and> S3Client_getattr example_client ''shutdown'' = Inl AttributeError"
  by (simp add: example_client_init S3Client_getattr_def)

text \<open>
  C7, amended: a client has no \<^verbatim>\<open>shutdown\<close> operation; it has a shutdown future, which
  is pending when the client is made and which the callback \<^verbatim>\<open>on_shutdown\<close> handed
  to the native client resolves with \<^verbatim>\<open>None\<close>. The signal can be seen once: the
  first call of the callback resolves the future, and however often the callback is called
  the future has fired exactly once; a further call raises and changes nothing.
\<close>

theorem shutdown_signal_once:
  assumes "S3Client_init N cfg w = Inr (cl, w0)"
  shows "S3Client_getattr cl ''shutdown'' = Inl AttributeError
    \<and> S3Client_getattr cl ''shutdown_future'' = Inr (AFuture (shutdown_future cl))
    \<and> shutdown_future cl < length (futures w0)
    \<and> futures w0 ! shutdown_future cl = \<lparr>fut_state = PENDING, fut_notified = 0\<rparr>
    \<and> S3Client_on_shutdown (shutdown_future cl) w0
         = Inr (w0\<lparr>futures := (futures w0)
                      [shutdown_future cl :=
                         \<lparr>fut_state = FINISHED_result PyNone, fut_notified = 1\<rparr>]\<rparr>)
    \<and> (\<forall>n. S3Client_on_shutdown_times (Suc n) (shutdown_future cl) w0
              = w0\<lparr>futures := (futures w0)
                      [shutdown_future cl :=
                         \<lparr>fut_state = FINISHED_result PyNone, fut_notified = 1\<rparr>]\<rparr>)
    \<and> S3Client_on_shutdown (shutdown_future cl)
          (w0\<lparr>futures := (futures w0)
                      [shutdown_future cl :=
                         \<lparr>fut_state = FINISHED_result PyNone, fut_notified = 1\<rparr>]\<rparr>)
         = Inl InvalidStateError"
proof -
  let ?sf = "shutdown_future cl"
  let ?w1 = "w0\<lparr>futures := (futures w0)
                [?sf := \<lparr>fut_state = FINISHED_result PyNone, fut_notified = 1\<rparr>]\<rparr>"
  note i = S3Client_init_result [OF assms]
  have r: "?sf < length (futures w0)" using i by simp
  have p: "futures w0 ! ?sf = \<lparr>fut_state = PENDING, fut_notified = 0\<rparr>"
    using i by (simp add: nth_append)
  have f: "S3Client_on_shutdown ?sf w0 = Inr ?w1"
    using r p by (simp add: S3Client_on_shutdown_def set_result_def resolve_def)
  have d: "?sf < length (futures ?w1)" "fut_state (futures ?w1 ! ?sf) \<noteq> PENDING"
    using r by simp_all
  have t: "S3Client_on_shutdown_times (Suc n) ?sf w0 = ?w1" for n
    using f on_shutdown_times_done [OF d, of n] by simp
  have s: "S3Client_on_shutdown ?sf ?w1 = Inl InvalidStateError"
    using r by (simp add: S3Client_on_shutdown_def set_result_def resolve_def)
  show ?thesis using r p f t s by (simp add: S3Client_getattr_def)
qed

theorem shutdown_signal_once_witness:
  "S3Client_init permissive_native example_config empty_world = Inr (example_client, example_world)
   \<and> S3Client_on_shutdown (shutdown_future example_client) example_world
        = Inr \<lparr>futures = [\<lparr>fut_state = FINISHED_result PyNone, fut_notified = 1\<rparr>], calls = []\<rparr>
   \<and> S3Client_on_shutdown_times 3 (shutdown_future example_client) example_world
        = \<lparr>futures = [\<lparr>fut_state = FINISHED_result PyNone, fut_notified = 1\<rparr>], calls = []\<rparr>"
  using shutdown_signal_once [OF example_client_init]
  by (simp add: example_client_init example_client_def example_world_def pending_def
      numeral_3_eq_3)

section \<open>Requests\<close>

lemma extension_make_request:
  "S3Client_make_request extension_native example_client example_kwargs example_world
     = Inr (example_S3Request, example_world2)"
  by (simp add: S3Client_make_request_def example_kwargs_def S3Request_init_def
      extension_native_def example_request_def example_client_def example_world_def
      Future_new_def kwarg_def example_S3Request_def example_world2_def pending_def)

text \<open>
  C3 does not hold of the code. With the extension module as the source reaches it, the
  terminal callback for the error code 14, on a request whose finished future is pending,
  raises an attribute error while it evaluates \<^verbatim>\<open>_awscrt.exceptions.from_code\<close>, and
  the finished future stays pending: it is not resolved with an exception made from the
  code.
\<close>

theorem on_finish_attribute_error:
  "S3Client_make_request extension_native example_client example_kwargs example_world
     = Inr (example_S3Request, example_world2)
   \<and> fut_state (futures example_world2 ! S3Request_finished_future example_S3Request) = PENDING
   \<and> S3Request_on_finish extension_native example_S3Request 14 example_world2
        = Raised AttributeError example_world2
   \<and> S3Request_on_finish extension_native example_S3Request 0 example_world2
        = Returned example_S3Request
            \<lparr>futures = [pending,
                        \<lparr>fut_state = FINISHED_result (PyStr ''what?''), fut_notified = 1\<rparr>,
                        pending],
             calls = []\<rparr>"
proof -
  have "fut_state (futures example_world2 ! S3Request_finished_future example_S3Request) = PENDING
   \<and> S3Request_on_finish extension_native example_S3Request 14 example_world2
        = Raised AttributeError example_world2
   \<and> S3Request_on_finish extension_native example_S3Request 0 example_world2
        = Returned example_S3Request
            \<lparr>futures = [pending,
                        \<lparr>fut_state = FINISHED_result (PyStr ''what?''), fut_notified = 1\<rparr>,
                        pending],
             calls = []\<rparr>"
    by (simp add: S3Request_on_finish_def S3Request_finished_future_def set_result_def
        resolve_def extension_native_def example_S3Request_def example_world2_def pending_def)
  with extension_make_request show ?thesis by blast
qed

text \<open>
  C5, as the claim states it, fails: \<^verbatim>\<open>make_request\<close> has no \<^verbatim>\<open>on_progress\<close>
  parameter, and a call that supplies one is a type error.
\<close>

theorem on_progress_counterexample:
  "S3Client_make_request permissive_native example_client
      [(''request'', example_request), (''type'', request_type_value GET_OBJECT),
       (''on_headers'', PyFunc 1), (''on_progress'', PyFunc 3)] example_world
     = Inl TypeError"
  by (simp add: S3Client_make_request_def)

text \<open>
  C5, amended: \<^verbatim>\<open>make_request\<close> takes two optional callbacks, \<^verbatim>\<open>on_headers\<close> and
  \<^verbatim>\<open>on_body\<close>, each of which may be left out whatever the other is. An event whose
  callback is left out (or is false in a truth test) is discarded without an error and
  changes nothing. An event whose callback is supplied calls it with the event's
  arguments, and the call's outcome, return or exception, is the outcome of the event; it
  leaves the futures alone. When the native meta request delivers its events in the order
  of the contract, the user's callbacks are called in that order: at most one call of
  \<^verbatim>\<open>on_headers\<close> first, then the calls of \<^verbatim>\<open>on_body\<close> in the order of the chunks, and
  no call after the terminal event.
\<close>

theorem callbacks_optional:
  "(isinstance request HttpRequest
      \<and> s3_client_make_meta_request N (client_binding cl) request type = Inr b
      \<and> (\<forall>f. oh = Some f \<longrightarrow> callable f) \<and> (\<forall>f. ob = Some f \<longrightarrow> callable f) \<longrightarrow>
      S3Client_make_request N cl
           ([(''request'', request), (''type'', type)]
              @ supplied ''on_headers'' oh @ supplied ''on_body'' ob) w
         = Inr (\<lparr>p_on_headers_cb = slot_value oh, p_on_body_cb = slot_value ob, p_client = cl,
                 p_finished_future = length (futures w),
                 p_shutdown_future = Suc (length (futures w)), request_binding = b\<rparr>,
                snd (Future_new (snd (Future_new w)))))
   \<and> (\<not> truthy (p_on_headers_cb r) \<longrightarrow>
         S3Request_on_headers U r status_code hdrs w1 = Returned r w1)
   \<and> (\<not> truthy (p_on_body_cb r) \<longrightarrow> S3Request_on_body U r chunk w1 = Returned r w1)
   \<and> (truthy (p_on_headers_cb r) \<longrightarrow>
         S3Request_on_headers U r status_code hdrs w1
           = (case U (Call_on_headers (p_on_headers_cb r) status_code hdrs) of
                None \<Rightarrow> Returned r
                  (w1\<lparr>calls := calls w1 @ [Call_on_headers (p_on_headers_cb r) status_code hdrs]\<rparr>)
              | Some e \<Rightarrow> Raised e
                  (w1\<lparr>calls := calls w1 @ [Call_on_headers (p_on_headers_cb r) status_code hdrs]\<rparr>)))
   \<and> (truthy (p_on_body_cb r) \<longrightarrow>
         S3Request_on_body U r chunk w1
           = (case U (Call_on_body (p_on_body_cb r) chunk) of
                None \<Rightarrow> Returned r (w1\<lparr>calls := calls w1 @ [Call_on_body (p_on_body_cb r) chunk]\<rparr>)
              | Some e \<Rightarrow> Raised e (w1\<lparr>calls := calls w1 @ [Call_on_body (p_on_body_cb r) chunk]\<rparr>)))
   \<and> (ordered_events evs \<longrightarrow>
         calls (s_world (run N U evs (new_session r w1)))
           = calls w1 @ concat (map (user_call r) evs)
         \<and> ordered_calls (concat (map (user_call r) evs))
         \<and> (\<forall>pre c rest. evs = pre @ Finish c # rest \<longrightarrow>
               calls (s_world (run N U evs (new_session r w1)))
                 = calls (s_world (run N U pre (new_session r w1)))))"
proof -
  have o: "calls (s_world (run N U evs (new_session r w1)))
             = calls (s_world (run N U pre (new_session r w1)))"
    if "ordered_events evs" "evs = pre @ Finish c # rest" for pre c rest
    using ordered_events_last [OF that, of r] that(2)
    by (simp add: run_calls new_session_def)
  have a: "calls (s_world (run N U evs (new_session r w1)))
             = calls w1 @ concat (map (user_call r) evs)"
    by (simp add: run_calls new_session_def)
  have h: "S3Request_on_headers U r status_code hdrs w1
             = (if truthy (p_on_headers_cb r)
                then call_user U (Call_on_headers (p_on_headers_cb r) status_code hdrs) r w1
                else Returned r w1)"
    by (simp add: S3Request_on_headers_def)
  have b: "S3Request_on_body U r chunk w1
             = (if truthy (p_on_body_cb r)
                then call_user U (Call_on_body (p_on_body_cb r) chunk) r w1
                else Returned r w1)"
    by (simp add: S3Request_on_body_def)
  show ?thesis
    using make_request_supplied [of request N cl type b oh ob w] o a ordered_events_calls [of evs r]
    unfolding h b call_user_def
    by (intro conjI impI allI) simp_all
qed

theorem callbacks_optional_witness:
  "S3Client_make_request permissive_native example_client
      [(''request'', example_request), (''type'', request_type_value GET_OBJECT),
       (''on_headers'', PyFunc 1)] example_world
     = Inr (example_S3Request, example_world2)
   \<and> ordered_events [Headers 200 [(''Content-Length'', ''2'')], Body [1, 2], Finish 0, Shutdown]
   \<and> calls (s_world (run permissive_native quiet_user
                [Headers 200 [(''Content-Length'', ''2'')], Body [1, 2], Finish 0, Shutdown]
                (new_session example_S3Request example_world2)))
       = [Call_on_headers (PyFunc 1) 200 [(''Content-Length'', ''2'')]]
   \<and> S3Request_on_headers failing_user example_S3Request 200 [] example_world2
       = Raised RuntimeError (example_world2\<lparr>calls := [Call_on_headers (PyFunc 1) 200 []]\<rparr>)
   \<and> S3Request_on_body failing_user example_S3Request [1, 2] example_world2
       = Returned example_S3Request example_world2"
  using callbacks_optional [of example_request permissive_native example_client
      "request_type_value GET_OBJECT" 2 "Some (PyFunc 1)" None example_world
      example_S3Request quiet_user 200 "[]" example_world2 "[1, 2]"
      "[Headers 200 [(''Content-Length'', ''2'')], Body [1, 2], Finish 0, Shutdown]"]
    callbacks_optional [of example_request permissive_native example_client
      "request_type_value GET_OBJECT" 2 "Some (PyFunc 1)" None example_world
      example_S3Request failing_user 200 "[]" example_world2 "[1, 2]" "[]"]
  by (simp add: permissive_native_def example_request_def example_client_def example_world_def
      Future_new_def example_S3Request_def example_world2_def pending_def failing_user_def)

text \<open>
  C8: the finished future and the shutdown future of a request are two different futures,
  both pending when the request is made. The terminal callback changes no future but the
  finished future, whatever its outcome, and resolves it when it is pending: with the
  success result for the code zero, and with the exception made from the code otherwise.
  The shutdown callback changes no future but the shutdown future, whatever its outcome,
  and resolves it when it is pending. So each callback resolves its own future and leaves
  the other as it was.
\<close>

theorem completion_and_shutdown_futures_separate:
  assumes "S3Client_make_request N cl kw w = Inr (r, w0)"
  shows "S3Request_finished_future r \<noteq> S3Request_shutdown_future r
    \<and> S3Request_finished_future r < length (futures w0)
    \<and> S3Request_shutdown_future r < length (futures w0)
    \<and> futures w0 ! S3Request_finished_future r = \<lparr>fut_state = PENDING, fut_notified = 0\<rparr>
    \<and> futures w0 ! S3Request_shutdown_future r = \<lparr>fut_state = PENDING, fut_notified = 0\<rparr>
    \<and> (\<forall>error_code w1 a. a \<noteq> S3Request_finished_future r \<longrightarrow>
          futures (outcome_world (S3Request_on_finish N r error_code w1)) ! a = futures w1 ! a)
    \<and> (\<forall>w1 a. a \<noteq> S3Request_shutdown_future r \<longrightarrow>
          futures (outcome_world (S3Request_on_shutdown r w1)) ! a = futures w1 ! a)
    \<and> (\<forall>w1. S3Request_finished_future r < length (futures w1)
              \<and> fut_state (futures w1 ! S3Request_finished_future r) = PENDING \<longrightarrow>
          S3Request_on_finish N r 0 w1
            = Returned r (w1\<lparr>futures := (futures w1)
                [S3Request_finished_future r :=
                   \<lparr>fut_state = FINISHED_result (PyStr ''what?''),
                    fut_notified = fut_notified (futures w1 ! S3Request_finished_future r) + 1\<rparr>]\<rparr>))
    \<and> (\<forall>w1 error_code e. S3Request_finished_future r < length (futures w1)
              \<and> fut_state (futures w1 ! S3Request_finished_future r) = PENDING
              \<and> error_code \<noteq> 0 \<and> from_code N error_code = Inr e \<longrightarrow>
          S3Request_on_finish N r error_code w1
            = Returned r (w1\<lparr>futures := (futures w1)
                [S3Request_finished_future r :=
                   \<lparr>fut_state = FINISHED_exception e,
                    fut_notified = fut_notified (futures w1 ! S3Request_finished_future r) + 1\<rparr>]\<rparr>))
    \<and> (\<forall>w1. S3Request_shutdown_future r < length (futures w1)
              \<and> fut_state (futures w1 ! S3Request_shutdown_future r) = PENDING \<longrightarrow>
          S3Request_on_shutdown r w1
            = Returned r (w1\<lparr>futures := (futures w1)
                [S3Request_shutdown_future r :=
                   \<lparr>fut_state = FINISHED_result (PyStr ''what?''),
                    fut_notified = fut_notified (futures w1 ! S3Request_shutdown_future r) + 1\<rparr>]\<rparr>))"
proof -
  from assms obtain request type where
    i: "S3Request_init N cl request type
          (kwarg kw ''on_headers'' PyNone) (kwarg kw ''on_body'' PyNone) w = Inr (r, w0)"
    using make_request_init by blast
  note res = S3Request_init_result [OF i]
  have d: "S3Request_finished_future r \<noteq> S3Request_shutdown_future r"
    using res(4,5) by (simp add: S3Request_finished_future_def S3Request_shutdown_future_def)
  have p: "S3Request_finished_future r < length (futures w0)"
    "S3Request_shutdown_future r < length (futures w0)"
    "futures w0 ! S3Request_finished_future r = \<lparr>fut_state = PENDING, fut_notified = 0\<rparr>"
    "futures w0 ! S3Request_shutdown_future r = \<lparr>fut_state = PENDING, fut_notified = 0\<rparr>"
    using res(4,5,6)
    by (simp_all add: S3Request_finished_future_def S3Request_shutdown_future_def nth_append)
  have f: "futures (outcome_world (S3Request_on_finish N r error_code w1)) ! a = futures w1 ! a"
    if "a \<noteq> S3Request_finished_future r" for error_code w1 a
    using that
    by (auto simp add: S3Request_on_finish_def S3Request_finished_future_def set_result_def
        set_exception_def resolve_def split: sum.splits)
  have s: "futures (outcome_world (S3Request_on_shutdown r w1)) ! a = futures w1 ! a"
    if "a \<noteq> S3Request_shutdown_future r" for w1 a
    using that
    by (auto simp add: S3Request_on_shutdown_def set_result_def resolve_def split: sum.splits)
  have rf: "S3Request_on_finish N r 0 w1
            = Returned r (w1\<lparr>futures := (futures w1)
                [S3Request_finished_future r :=
                   \<lparr>fut_state = FINISHED_result (PyStr ''what?''),
                    fut_notified = fut_notified (futures w1 ! S3Request_finished_future r) + 1\<rparr>]\<rparr>)"
    if "S3Request_finished_future r < length (futures w1)"
      "fut_state (futures w1 ! S3Request_finished_future r) = PENDING" for w1
    using that
    by (simp add: S3Request_on_finish_def S3Request_finished_future_def set_result_def
        resolve_def)
  have re: "S3Request_on_finish N r error_code w1
            = Returned r (w1\<lparr>futures := (futures w1)
                [S3Request_finished_future r :=
                   \<lparr>fut_state = FINISHED_exception e,
                    fut_notified = fut_notified (futures w1 ! S3Request_finished_future r) + 1\<rparr>]\<rparr>)"
    if "S3Request_finished_future r < length (futures w1)"
      "fut_state (futures w1 ! S3Request_finished_future r) = PENDING"
      "error_code \<noteq> 0" "from_code N error_code = Inr e" for w1 error_code e
    using that
    by (simp add: S3Request_on_finish_def S3Request_finished_future_def set_exception_def
        resolve_def)
  have rs: "S3Request_on_shutdown r w1
            = Returned r (w1\<lparr>futures := (futures w1)
                [S3Request_shutdown_future r :=
                   \<lparr>fut_state = FINISHED_result (PyStr ''what?''),
                    fut_notified = fut_notified (futures w1 ! S3Request_shutdown_future r) + 1\<rparr>]\<rparr>)"
    if "S3Request_shutdown_future r < length (futures w1)"
      "fut_state (futures w1 ! S3Request_shutdown_future r) = PENDING" for w1
    using that by (simp add: S3Request_on_shutdown_def set_result_def resolve_def)
  show ?thesis using d p f s rf re rs by blast
qed

theorem completion_and_shutdown_futures_separate_witness:
  "S3Client_make_request permissive_native example_client example_kwargs example_world
     = Inr (example_S3Request, example_world2)
   \<and> S3Request_finished_future example_S3Request \<noteq> S3Request_shutdown_future example_S3Request
   \<and> S3Request_on_finish permissive_native example_S3Request 0 example_world2
       = Returned example_S3Request
              \<lparr>futures = [pending,
                          \<lparr>fut_state = FINISHED_result (PyStr ''what?''), fut_notified = 1\<rparr>,
                          pending],
               calls = []\<rparr>
   \<and> S3Request_on_finish permissive_native example_S3Request 14 example_world2
       = Returned example_S3Request
              \<lparr>futures = [pending,
                          \<lparr>fut_state = FINISHED_exception (AwsCrtError 14), fut_notified = 1\<rparr>,
                          pending],
               calls = []\<rparr>
   \<and> S3Request_on_shutdown example_S3Request example_world2
       = Returned example_S3Request
              \<lparr>futures = [pending, pending,
                          \<lparr>fut_state = FINISHED_result (PyStr ''what?''), fut_notified = 1\<rparr>],
               calls = []\<rparr>"
proof -
  have c: "from_code permissive_native 14 = Inr (AwsCrtError 14)"
    by (simp add: permissive_native_def)
  have a: "S3Request_finished_future example_S3Request = 1"
    "S3Request_shutdown_future example_S3Request = 2"
    by (simp_all add: S3Request_finished_future_def S3Request_shutdown_future_def
        example_S3Request_def)
  show ?thesis
    using completion_and_shutdown_futures_separate [OF example_make_request] c
    unfolding a
    by (simp add: example_make_request example_world2_def pending_def)
qed

text \<open>
  C9: a request made by \<^verbatim>\<open>make_request\<close> refers to the client that made it, and no
  callback, and no run of callbacks, changes that reference.
\<close>

theorem client_reference_kept:
  assumes "S3Client_make_request N cl kw w = Inr (r, w0)"
  shows "p_client r = cl
    \<and> (\<forall>ev w1 r' w2. deliver N U ev r w1 = Returned r' w2 \<longrightarrow> p_client r' = cl)
    \<and> (\<forall>evs w1. p_client (s_request (run N U evs (new_session r w1))) = cl)"
proof -
  from assms obtain request type where
    i: "S3Request_init N cl request type
          (kwarg kw ''on_headers'' PyNone) (kwarg kw ''on_body'' PyNone) w = Inr (r, w0)"
    using make_request_init by blast
  have c: "p_client r = cl" using S3Request_init_result(1)[OF i] .
  have "p_client r' = cl" if "deliver N U ev r w1 = Returned r' w2" for ev w1 r' w2
    using deliver_self[OF that] c by simp
  moreover have "p_client (s_request (run N U evs (new_session r w1))) = cl" for evs w1
    by (simp add: run_request new_session_def c)
  ultimately show ?thesis using c by blast
qed

theorem client_reference_kept_witness:
  "p_client example_S3Request = example_client
   \<and> p_client (s_request (run permissive_native failing_user
        [Headers 200 [], Body [1, 2], Finish 0, Shutdown]
        (new_session example_S3Request example_world2))) = example_client"
  using client_reference_kept [OF example_make_request] by simp

section \<open>The finished future fires at most once\<close>

lemma post_resolved_once:
  assumes "resolved_once s"
  shows "resolved_once (post N U s ev)"
    and "session_state s \<noteq> PENDING \<Longrightarrow> s_world (post N U s (Finish c)) = s_world s"
  using assms
  by (cases ev;
      auto simp add: resolved_once_def session_state_def session_fired_def post_def
        S3Request_on_headers_def S3Request_on_body_def S3Request_on_finish_def
        S3Request_on_shutdown_def S3Request_finished_future_def S3Request_shutdown_future_def
        set_result_def set_exception_def resolve_def nth_list_update call_user_def
        split: if_splits sum.splits option.splits)+

lemma run_resolved_once:
  "resolved_once s \<Longrightarrow> resolved_once (run N U evs s)"
  by (induction evs arbitrary: s) (simp_all add: run_def post_resolved_once(1))

lemma post_Finish_twice:
  "s_world (post N U (post N U s (Finish c)) (Finish c)) = s_world (post N U s (Finish c))"
  by (auto simp add: post_def S3Request_on_finish_def set_result_def set_exception_def
      resolve_def split: sum.splits)

lemma make_request_resolved_once:
  assumes "S3Client_make_request N cl kw w = Inr (r, w')"
  shows "resolved_once (new_session r w')"
proof -
  from make_request_init [OF assms] obtain request type where
    i: "S3Request_init N cl request type
          (kwarg kw ''on_headers'' PyNone) (kwarg kw ''on_body'' PyNone) w = Inr (r, w')" by blast
  from S3Request_init_result(4,6) [OF i] show ?thesis
    by (simp add: resolved_once_def new_session_def session_state_def session_fired_def
        S3Request_finished_future_def nth_append)
qed

text \<open>
  C4 does not hold of the code. With the extension module as the source reaches it, a
  meta request whose terminal callback reports the error code 14 never resolves its
  finished future: the callback raises an attribute error, the future stays pending, and
  the terminal signal has fired zero times.
\<close>

theorem terminal_signal_lost:
  "S3Client_make_request extension_native example_client example_kwargs example_world
     = Inr (example_S3Request, example_world2)
   \<and> session_fired (run extension_native quiet_user [Headers 200 [], Finish 14]
        (new_session example_S3Request example_world2)) = 0
   \<and> session_state (run extension_native quiet_user [Headers 200 [], Finish 14]
        (new_session example_S3Request example_world2)) = PENDING
   \<and> s_raised (run extension_native quiet_user [Headers 200 [], Finish 14]
        (new_session example_S3Request example_world2)) = [AttributeError]"
proof -
  have "run extension_native quiet_user [Headers 200 [], Finish 14]
          (new_session example_S3Request example_world2)
        = \<lparr>s_request = example_S3Request,
           s_world = example_world2\<lparr>calls := [Call_on_headers (PyFunc 1) 200 []]\<rparr>,
           s_raised = [AttributeError]\<rparr>"
    by (simp add: run_def post_def new_session_def S3Request_on_headers_def
        S3Request_on_finish_def call_user_def quiet_user_def extension_native_def
        example_S3Request_def example_world2_def)
  then have "session_fired (run extension_native quiet_user [Headers 200 [], Finish 14]
        (new_session example_S3Request example_world2)) = 0
   \<and> session_state (run extension_native quiet_user [Headers 200 [], Finish 14]
        (new_session example_S3Request example_world2)) = PENDING
   \<and> s_raised (run extension_native quiet_user [Headers 200 [], Finish 14]
        (new_session example_S3Request example_world2)) = [AttributeError]"
    by (simp add: session_fired_def session_state_def S3Request_finished_future_def
        example_S3Request_def example_world2_def pending_def)
  with extension_make_request show ?thesis by blast
qed

text \<open>
  C1, as the claim states it, fails: the class \<^verbatim>\<open>S3Request\<close> defines no
  \<^verbatim>\<open>cancel\<close>, and looking it up on the handle that \<^verbatim>\<open>make_request\<close> returns is
  an attribute error.
\<close>

theorem cancel_operation_counterexample:
  "S3Client_make_request permissive_native example_client example_kwargs example_world
     = Inr (example_S3Request, example_world2)
   \<and> S3Request_getattr example_S3Request ''cancel'' = Inl AttributeError"
  by (simp add: example_make_request S3Request_getattr_def)

text \<open>
  C1, amended: a handle that \<^verbatim>\<open>make_request\<close> returns has no \<^verbatim>\<open>cancel\<close>
  operation; it has the finished future and the shutdown future. What can reach the
  finished future twice is the terminal signal, and it is idempotent: delivering the same
  terminal signal twice leaves the world as delivering it once does, once the finished
  future is resolved no further terminal signal changes anything, and over any run of
  events the finished future fires at most once.
\<close>

theorem terminal_signal_idempotent:
  assumes "S3Client_make_request N cl kw w = Inr (r, w0)"
  shows "S3Request_getattr r ''cancel'' = Inl AttributeError
    \<and> S3Request_getattr r ''finished_future'' = Inr (AFuture (S3Request_finished_future r))
    \<and> S3Request_getattr r ''shutdown_future'' = Inr (AFuture (S3Request_shutdown_future r))
    \<and> (\<forall>evs c. s_world (run N U (evs @ [Finish c, Finish c]) (new_session r w0))
                  = s_world (run N U (evs @ [Finish c]) (new_session r w0)))
    \<and> (\<forall>evs c. session_state (run N U evs (new_session r w0)) \<noteq> PENDING \<longrightarrow>
                  s_world (run N U (evs @ [Finish c]) (new_session r w0))
                    = s_world (run N U evs (new_session r w0)))
    \<and> (\<forall>evs. session_fired (run N U evs (new_session r w0)) \<le> 1)"
proof -
  have ro: "resolved_once (run N U evs (new_session r w0))" for evs
    using make_request_resolved_once [OF assms] by (rule run_resolved_once)
  have t: "s_world (run N U (evs @ [Finish c, Finish c]) (new_session r w0))
             = s_world (run N U (evs @ [Finish c]) (new_session r w0))" for evs c
    using post_Finish_twice [of N U "run N U evs (new_session r w0)" c]
    by (simp add: run_def)
  have d: "s_world (run N U (evs @ [Finish c]) (new_session r w0))
             = s_world (run N U evs (new_session r w0))"
    if "session_state (run N U evs (new_session r w0)) \<noteq> PENDING" for evs c
    using post_resolved_once(2) [OF ro that, of N U c] by (simp add: run_def)
  have f: "session_fired (run N U evs (new_session r w0)) \<le> 1" for evs
    using ro [of evs] by (auto simp add: resolved_once_def split: if_splits)
  show ?thesis
    using t d f
    by (simp add: S3Request_getattr_def S3Request_finished_future_def
        S3Request_shutdown_future_def)
qed

theorem terminal_signal_idempotent_witness:
  "S3Client_make_request permissive_native example_client example_kwargs example_world
     = Inr (example_S3Request, example_world2)
   \<and> S3Request_getattr example_S3Request ''cancel'' = Inl AttributeError
   \<and> S3Request_getattr example_S3Request ''finished_future'' = Inr (AFuture 1)
   \<and> s_world (run permissive_native quiet_user [Finish 14, Finish 14]
        (new_session example_S3Request example_world2))
       = \<lparr>futures = [pending,
                      \<lparr>fut_state = FINISHED_exception (AwsCrtError 14), fut_notified = 1\<rparr>,
                      pending],
          calls = []\<rparr>
   \<and> session_fired (run permissive_native quiet_user [Finish 14, Finish 14]
        (new_session example_S3Request example_world2)) = 1"
proof -
  have w: "s_world (run permissive_native quiet_user [Finish 14]
        (new_session example_S3Request example_world2))
       = \<lparr>futures = [pending,
                      \<lparr>fut_state = FINISHED_exception (AwsCrtError 14), fut_notified = 1\<rparr>,
                      pending],
          calls = []\<rparr>"
    by (simp add: run_def post_def new_session_def S3Request_on_finish_def set_exception_def
        resolve_def permissive_native_def example_S3Request_def example_world2_def pending_def)
  have q: "s_request (run permissive_native quiet_user [Finish 14, Finish 14]
        (new_session example_S3Request example_world2)) = example_S3Request"
    by (simp add: run_request new_session_def)
  have a: "S3Request_finished_future example_S3Request = 1"
    by (simp add: S3Request_finished_future_def example_S3Request_def)
  from terminal_signal_idempotent [OF example_make_request, of quiet_user]
  have g: "S3Request_getattr example_S3Request ''cancel'' = Inl AttributeError"
    and h: "S3Request_getattr example_S3Request ''finished_future'' = Inr (AFuture 1)"
    and t: "s_world (run permissive_native quiet_user ([] @ [Finish 14, Finish 14])
                (new_session example_S3Request example_world2))
            = s_world (run permissive_native quiet_user ([] @ [Finish 14])
                (new_session example_S3Request example_world2))"
    unfolding a by blast+
  from t w have e: "s_world (run permissive_native quiet_user [Finish 14, Finish 14]
        (new_session example_S3Request example_world2))
       = \<lparr>futures = [pending,
                      \<lparr>fut_state = FINISHED_exception (AwsCrtError 14), fut_notified = 1\<rparr>,
                      pending],
          calls = []\<rparr>" by simp
  have "session_fired (run permissive_native quiet_user [Finish 14, Finish 14]
        (new_session example_S3Request example_world2)) = 1"
    unfolding session_fired_def q e a by simp
  with example_make_request g h e show ?thesis by blast
qed

section \<open>The plan of the Part Scheduler\<close>

lemma plan_from_contiguous:
  "0 < P \<Longrightarrow> off \<le> S \<Longrightarrow> contiguous off (plan_from P S off) S"
proof (induction P S off rule: plan_from.induct)
  case (1 P S off)
  show ?case
  proof (cases "S \<le> off")
    case True
    with "1.prems" show ?thesis by (simp add: plan_from.simps)
  next
    case False
    show ?thesis
    proof (cases "off + P \<le> S")
      case True
      with False "1.prems" "1.IH" show ?thesis
        by (subst plan_from.simps) (simp add: min_def)
    next
      case f: False
      then have "plan_from P S (off + P) = []" by (simp add: plan_from.simps)
      with False f "1.prems" show ?thesis
        by (subst plan_from.simps) (simp add: min_def)
    qed
  qed
qed

lemma plan_from_member:
  "r \<in> set (plan_from P S off) \<Longrightarrow>
     off \<le> fst r \<and> fst r < snd r \<and> snd r \<le> S \<and> snd r - fst r \<le> P"
proof (induction P S off rule: plan_from.induct)
  case (1 P S off)
  show ?case
  proof (cases "P = 0 \<or> S \<le> off")
    case True
    with "1.prems" show ?thesis by (simp add: plan_from.simps)
  next
    case False
    from "1.prems" have "r = (off, min (off + P) S) \<or> r \<in> set (plan_from P S (off + P))"
      using False by (subst (asm) plan_from.simps) simp
    then show ?thesis
    proof
      assume "r = (off, min (off + P) S)"
      with False show ?thesis by (auto simp add: min_def)
    next
      assume "r \<in> set (plan_from P S (off + P))"
      with "1.IH" False show ?thesis by force
    qed
  qed
qed

lemma plan_from_ascending:
  "sorted_wrt (\<lambda>r r'. snd r \<le> fst r') (plan_from P S off)"
proof (induction P S off rule: plan_from.induct)
  case (1 P S off)
  show ?case
  proof (cases "P = 0 \<or> S \<le> off")
    case True
    then show ?thesis by (simp add: plan_from.simps)
  next
    case False
    have "min (off + P) S \<le> fst r" if "r \<in> set (plan_from P S (off + P))" for r
      using plan_from_member [OF that] by simp
    with False "1.IH" show ?thesis
      by (subst plan_from.simps) simp
  qed
qed

lemma plan_from_covered:
  "0 < P \<Longrightarrow> covered (plan_from P S off) = {off ..< S}"
proof (induction P S off rule: plan_from.induct)
  case (1 P S off)
  show ?case
  proof (cases "S \<le> off")
    case True
    then show ?thesis by (simp add: plan_from.simps covered_def)
  next
    case False
    with "1.prems" "1.IH" have ih: "covered (plan_from P S (off + P)) = {off + P ..< S}" by simp
    have "covered (plan_from P S off) = {off ..< min (off + P) S} \<union> covered (plan_from P S (off + P))"
      using False "1.prems" by (subst plan_from.simps) (simp add: covered_def)
    also have "\<dots> = {off ..< S}" using ih False by (auto simp add: min_def)
    finally show ?thesis .
  qed
qed

lemma plan_from_last:
  "0 < P \<Longrightarrow> off < S \<Longrightarrow>
     part_length (last (plan_from P S off))
       = (if (S - off) mod P = 0 then P else (S - off) mod P)"
proof (induction P S off rule: plan_from.induct)
  case (1 P S off)
  show ?case
  proof (cases "off + P < S")
    case True
    then have ne: "plan_from P S (off + P) \<noteq> []"
      using "1.prems" by (subst plan_from.simps) simp
    have m: "(S - (off + P)) mod P = (S - off) mod P"
      using True by (metis add.commute diff_diff_left le_add_diff_inverse2 less_imp_le_nat
          mod_add_self2 less_diff_conv)
    have "last (plan_from P S off) = last (plan_from P S (off + P))"
      using "1.prems" ne by (subst plan_from.simps) simp
    with "1.IH" "1.prems" True m show ?thesis by simp
  next
    case False
    then have e: "plan_from P S (off + P) = []" by (simp add: plan_from.simps)
    have "plan_from P S off = [(off, S)]"
      using "1.prems" False e by (subst plan_from.simps) (simp add: min_def)
    moreover have "S - off \<le> P" using False by simp
    ultimately show ?thesis using "1.prems"
      by (cases "S - off = P") (simp_all add: part_length_def)
  qed
qed

lemma plan_from_length:
  "0 < P \<Longrightarrow> length (plan_from P S off) = (S - off + P - 1) div P"
proof (induction P S off rule: plan_from.induct)
  case (1 P S off)
  show ?case
  proof (cases "S \<le> off")
    case True
    with "1.prems" show ?thesis by (simp add: plan_from.simps)
  next
    case False
    have a: "S - off + P - 1 = (S - off - 1) + P" using False by simp
    have d: "(S - off + P - 1) div P = Suc ((S - off - 1) div P)"
      unfolding a using "1.prems" by simp
    have l: "length (plan_from P S off) = Suc (length (plan_from P S (off + P)))"
      using False "1.prems" by (subst plan_from.simps) simp
    show ?thesis
    proof (cases "off + P \<le> S")
      case True
      then have b: "S - (off + P) + P - 1 = S - off - 1" by simp
      have "length (plan_from P S (off + P)) = (S - off - 1) div P"
        using "1.IH" False "1.prems" unfolding b by simp
      with l d show ?thesis by simp
    next
      case f: False
      then have e: "plan_from P S (off + P) = []" by (simp add: plan_from.simps)
      have "S - off - 1 < P" using False f by simp
      then have "(S - off - 1) div P = 0" by simp
      with l d e show ?thesis by simp
    qed
  qed
qed

lemma plan_scenario:
  "plan (12 * MiB) (5 * MiB) = [(0, 5 * MiB), (5 * MiB, 10 * MiB), (10 * MiB, 12 * MiB)]"
  by (simp add: plan_def MiB_def plan_from.simps)

text \<open>
  C6: for every object size \<open>S\<close> and every part size \<open>P > 0\<close> the planned ranges
  partition \<open>[0, S)\<close>: they are contiguous from 0 to \<open>S\<close>, in ascending order and
  without overlap, and together cover exactly the bytes below \<open>S\<close>. Every part has at most
  \<open>P\<close> bytes, and the last part has \<open>S mod P\<close> bytes, or \<open>P\<close> when \<open>P\<close> divides a
  positive \<open>S\<close>. An object of 12 MiB with a part size of 5 MiB is planned as the three parts
  \<open>[0, 5 MiB)\<close>, \<open>[5 MiB, 10 MiB)\<close> and \<open>[10 MiB, 12 MiB)\<close>.
\<close>

theorem plan_partitions:
  assumes "0 < P"
  shows "contiguous 0 (plan S P) S
    \<and> sorted_wrt (\<lambda>r r'. snd r \<le> fst r') (plan S P)
    \<and> covered (plan S P) = {0 ..< S}
    \<and> (\<forall>r \<in> set (plan S P). fst r \<le> snd r \<and> part_length r \<le> P)
    \<and> part_length (last (plan S P)) = (if S mod P = 0 \<and> 0 < S then P else S mod P)
    \<and> length (plan S P) = (if S = 0 then 1 else (S + P - 1) div P)
    \<and> plan (12 * MiB) (5 * MiB) = [(0, 5 * MiB), (5 * MiB, 10 * MiB), (10 * MiB, 12 * MiB)]"
proof (cases "S = 0")
  case True
  then have "contiguous 0 (plan S P) S
    \<and> sorted_wrt (\<lambda>r r'. snd r \<le> fst r') (plan S P)
    \<and> covered (plan S P) = {0 ..< S}
    \<and> (\<forall>r \<in> set (plan S P). fst r \<le> snd r \<and> part_length r \<le> P)
    \<and> part_length (last (plan S P)) = (if S mod P = 0 \<and> 0 < S then P else S mod P)
    \<and> length (plan S P) = (if S = 0 then 1 else (S + P - 1) div P)"
    by (simp add: plan_def covered_def part_length_def)
  then show ?thesis using plan_scenario by blast
next
  case False
  then have p: "plan S P = plan_from P S 0" by (simp add: plan_def)
  have "contiguous 0 (plan S P) S" unfolding p using assms by (simp add: plan_from_contiguous)
  moreover have "sorted_wrt (\<lambda>r r'. snd r \<le> fst r') (plan S P)"
    unfolding p by (rule plan_from_ascending)
  moreover have "covered (plan S P) = {0 ..< S}"
    unfolding p using assms by (simp add: plan_from_covered)
  moreover have "\<forall>r \<in> set (plan S P). fst r \<le> snd r \<and> part_length r \<le> P"
    unfolding p part_length_def using plan_from_member [of _ P S 0] by (simp add: less_imp_le)
  moreover have "part_length (last (plan S P)) = (if S mod P = 0 \<and> 0 < S then P else S mod P)"
    unfolding p using plan_from_last [of P 0 S] assms False by simp
  moreover have "length (plan S P) = (if S = 0 then 1 else (S + P - 1) div P)"
    unfolding p using plan_from_length [of P S 0] assms False by simp
  ultimately show ?thesis using plan_scenario by blast
qed

theorem plan_partitions_witness:
  "(0::nat) < 4
   \<and> plan 10 4 = [(0, 4), (4, 8), (8, 10)]
   \<and> contiguous 0 (plan 10 4) 10
   \<and> part_length (last (plan 10 4)) = 2
   \<and> plan 8 4 = [(0, 4), (4, 8)]
   \<and> plan 0 4 = [(0, 0)]"
  using plan_partitions [of 4 10]
  by (simp add: plan_def plan_from.simps part_length_def)


end
